theory Spec2Isabelle
  imports Complex_Main
begin

section \<open>Provider selection\<close>

text \<open>
  \<^verbatim>\<open>process.env\<close> after \<^verbatim>\<open>dotenv.config()\<close>: a variable is either unset
  (\<^verbatim>\<open>undefined\<close>) or holds a string, which may be empty.
\<close>

type_synonym env = "string \<rightharpoonup> string"

text \<open>The fields object handed to the constructor of a chat client.\<close>

record chat_fields =
  model_id :: string
  temperature :: rat

text \<open>
  The two client classes the script instantiates; the value stored in the module-level
  variable \<^verbatim>\<open>model\<close> is one of them, together with the fields it was built from.
\<close>

datatype chat_model = ChatOpenAI chat_fields | ChatVertexAI chat_fields

fun fields_of :: "chat_model \<Rightarrow> chat_fields" where
  "fields_of (ChatOpenAI f) = f"
| "fields_of (ChatVertexAI f) = f"

text \<open>
  \<^verbatim>\<open>
  let model: BaseChatModel;
  if (process.env.LLM_PROVIDER == "OPENAI") {
    model = new ChatOpenAI({ model: "gpt-4", temperature: 0 });
  } else {
    model = new ChatVertexAI({ model: "gemini-1.5-pro-001", temperature: 0 });
  }
  \<close>
  The loose comparison \<^verbatim>\<open>==\<close> between \<^verbatim>\<open>undefined\<close> and a string is false, and
  between two strings it is equality of the strings.
\<close>

definition model :: "env \<Rightarrow> chat_model" where
  "model env =
     (if env ''LLM_PROVIDER'' = Some ''OPENAI''
      then ChatOpenAI \<lparr>model_id = ''gpt-4'', temperature = 0\<rparr>
      else ChatVertexAI \<lparr>model_id = ''gemini-1.5-pro-001'', temperature = 0\<rparr>)"

section \<open>Values exchanged with the backend\<close>

text \<open>
  JavaScript values as they travel between the script, the client library and the hosted
  model: the response body is a JSON object, and the library may hand back \<^verbatim>\<open>undefined\<close>.
  A number is a rational here, which covers every finite double; an object keeps its
  properties in insertion order and a property is read with \<open>map_of\<close>.
\<close>

datatype json =
    JUndefined
  | JNull
  | JBool bool
  | JNum rat
  | JStr string
  | JArr "json list"
  | JObj "(string \<times> json) list"

section \<open>The classification schema\<close>

text \<open>
  The schema is built with the builders of the zod library. The builders the script uses
  are kept as the constructors of a datatype, one per call in the chain:
  \<^verbatim>\<open>z.enum([...])\<close>, \<^verbatim>\<open>z.number()\<close> with its checks \<^verbatim>\<open>.int()\<close>, \<^verbatim>\<open>.min(n)\<close>, \<^verbatim>\<open>.max(n)\<close>
  in the order they are chained, \<^verbatim>\<open>z.string()\<close>, \<^verbatim>\<open>z.array(s)\<close>, \<^verbatim>\<open>z.object({...})\<close>
  and \<^verbatim>\<open>s.describe(text)\<close>.
\<close>

datatype number_check = Int_check | Min_check rat | Max_check rat

datatype zod =
    ZEnum "string list"
  | ZNumber "number_check list"
  | ZString
  | ZArray zod
  | ZObject "(string \<times> zod) list"
  | ZDescribe zod string

text \<open>
  \<^verbatim>\<open>
  const classificationSchema = z.object({
    sentiment: z.enum(["happy", "neutral", "sad", "angry", "frustrated"])
      .describe("The sentiment of the text"),
    aggressiveness: z.number().int().min(1).max(10).describe("..."),
    correctness: z.number().int().min(1).max(10).describe("..."),
    errors: z.array(z.string()).describe("..."),
    solution: z.string().describe("... Write the solution in {language}"),
    language: z.string().describe("The language the text is written in"),
  });
  \<close>
  The descriptions are the source's strings, character for character.
\<close>

definition classificationSchema :: zod where
  "classificationSchema = ZObject
     [(''sentiment'',
         ZDescribe (ZEnum [''happy'', ''neutral'', ''sad'', ''angry'', ''frustrated''])
           ''The sentiment of the text''),
      (''aggressiveness'',
         ZDescribe (ZNumber [Int_check, Min_check 1, Max_check 10])
           ''How aggressive the text is on a scale from 1 to 10''),
      (''correctness'',
         ZDescribe (ZNumber [Int_check, Min_check 1, Max_check 10])
           ''How the sentece is correct grammarly the text is on a scale from 1 to 10''),
      (''errors'',
         ZDescribe (ZArray ZString)
           ''The errors in the text. Specify the proper way to write the text and where it is wrong. Explain it in a human-readable way. Write each errror in a separate string''),
      (''solution'',
         ZDescribe ZString
           ''The solution to the errors in the text. Write the solution in {language}''),
      (''language'',
         ZDescribe ZString ''The language the text is written in'')]"

text \<open>The properties of an object schema, and the guidance attached to a schema.\<close>

fun shape :: "zod \<Rightarrow> (string \<times> zod) list" where
  "shape (ZObject fs) = fs"
| "shape (ZDescribe s d) = shape s"
| "shape s = []"

fun description :: "zod \<Rightarrow> string option" where
  "description (ZDescribe s d) = Some d"
| "description s = None"

text \<open>
  Modelled from the spec: the validator of the zod library, which is not among the
  repository's sources. Each builder is read the way the spec's data model reads the field
  it declares: an enum is "one of a fixed closed set", \<^verbatim>\<open>number().int().min(1).max(10)\<close>
  is an "integer in [1,10]" (both bounds included), an array of strings is an "ordered
  list of human-readable strings, zero or more", a string is a string, and in an object
  "all fields are required and must satisfy their declared constraints". A description
  constrains nothing.
\<close>

fun passes :: "number_check \<Rightarrow> rat \<Rightarrow> bool" where
  "passes Int_check r = (of_int \<lfloor>r\<rfloor> = r)"
| "passes (Min_check n) r = (n \<le> r)"
| "passes (Max_check n) r = (r \<le> n)"

fun accepts :: "zod \<Rightarrow> json \<Rightarrow> bool" where
  "accepts (ZEnum vs) v = (case v of JStr s \<Rightarrow> s \<in> set vs | _ \<Rightarrow> False)"
| "accepts (ZNumber cs) v = (case v of JNum r \<Rightarrow> list_all (\<lambda>c. passes c r) cs | _ \<Rightarrow> False)"
| "accepts ZString v = (case v of JStr s \<Rightarrow> True | _ \<Rightarrow> False)"
| "accepts (ZArray s) v = (case v of JArr xs \<Rightarrow> list_all (accepts s) xs | _ \<Rightarrow> False)"
| "accepts (ZObject fs) v =
     (case v of
        JObj kvs \<Rightarrow>
          list_all (\<lambda>(k, s). case map_of kvs k of None \<Rightarrow> False | Some x \<Rightarrow> accepts s x) fs
      | _ \<Rightarrow> False)"
| "accepts (ZDescribe s d) v = accepts s v"

text \<open>
  What the validator of the zod library (not among the repository's sources) returns for
  a value it accepts is not that value but a copy built along the schema: an object gets
  the schema's properties in the schema's order, each with the copy of its value, and the
  properties of the value that the schema does not declare are left out; an array gets the
  copies of its elements; every other value is returned as it is.
\<close>

fun data :: "zod \<Rightarrow> json \<Rightarrow> json"
  and data_properties ::
    "(string \<times> zod) list \<Rightarrow> (string \<times> json) list \<Rightarrow> (string \<times> json) list" where
  "data (ZObject fs) (JObj kvs) = JObj (data_properties fs kvs)"
| "data (ZArray s) (JArr xs) = JArr (map (data s) xs)"
| "data (ZDescribe s d) v = data s v"
| "data s v = v"
| "data_properties [] kvs = []"
| "data_properties ((k, s) # fs) kvs =
     (case map_of kvs k of
        None \<Rightarrow> data_properties fs kvs
      | Some x \<Rightarrow> (k, data s x) # data_properties fs kvs)"

section \<open>The prompt template\<close>

datatype error =
    UnclosedPlaceholder string
  | MissingValue string
  | OutputParserException
  | Thrown string

text \<open>
  \<open>OutputParserException\<close> is the validation error: the exception with which the library
  rejects an answer of the model that does not conform to the schema. \<open>Thrown\<close> stands
  for any other exception raised by the client library or the hosted service (missing
  credentials, a network failure), named by its message. The script inspects neither.
\<close>

record message =
  role :: string
  content :: string

text \<open>
  \<^verbatim>\<open>
  const systemTemplate = "You are an expert in {language}, you have to detect grammar problems sentences";
  const promptTemplate = ChatPromptTemplate.fromMessages([
    ["system", systemTemplate],
    ["user", "{text}"],
  ]);
  \<close>
\<close>

definition systemTemplate :: string where
  "systemTemplate = ''You are an expert in {language}, you have to detect grammar problems sentences''"

definition promptTemplate :: "(string \<times> string) list" where
  "promptTemplate = [(''system'', systemTemplate), (''user'', ''{text}'')]"

text \<open>
  Modelled from the spec: the template engine (\<^verbatim>\<open>ChatPromptTemplate\<close> of the langchain
  library, which is not among the repository's sources). The spec describes it as "a static
  message skeleton with named placeholders filled in per call" and "placeholder
  substitution" by "caller-supplied values": a template is read once from left to right, a
  brace opens a placeholder whose name runs to the closing brace, every other character is
  literal text, and each placeholder is replaced by the value supplied under its name. The
  supplied values are not read as templates again. A placeholder that is never closed and a
  name without a value are errors.
\<close>

datatype node = Literal char | Variable string

fun parse_template :: "string option \<Rightarrow> string \<Rightarrow> error + node list" where
  "parse_template None [] = Inr []"
| "parse_template (Some n) [] = Inl (UnclosedPlaceholder n)"
| "parse_template None (c # cs) =
     (if c = CHR ''{'' then parse_template (Some []) cs
      else (case parse_template None cs of
              Inl e \<Rightarrow> Inl e
            | Inr ns \<Rightarrow> Inr (Literal c # ns)))"
| "parse_template (Some n) (c # cs) =
     (if c = CHR ''}''
      then (case parse_template None cs of
              Inl e \<Rightarrow> Inl e
            | Inr ns \<Rightarrow> Inr (Variable n # ns))
      else parse_template (Some (n @ [c])) cs)"

fun interpolate :: "(string \<rightharpoonup> string) \<Rightarrow> node list \<Rightarrow> error + string" where
  "interpolate vs [] = Inr []"
| "interpolate vs (Literal c # ns) =
     (case interpolate vs ns of Inl e \<Rightarrow> Inl e | Inr s \<Rightarrow> Inr (c # s))"
| "interpolate vs (Variable n # ns) =
     (case vs n of
        None \<Rightarrow> Inl (MissingValue n)
      | Some v \<Rightarrow> (case interpolate vs ns of Inl e \<Rightarrow> Inl e | Inr s \<Rightarrow> Inr (v @ s)))"

definition format_template :: "string \<Rightarrow> (string \<rightharpoonup> string) \<Rightarrow> error + string" where
  "format_template t vs =
     (case parse_template None t of Inl e \<Rightarrow> Inl e | Inr ns \<Rightarrow> interpolate vs ns)"

fun formatMessages :: "(string \<times> string) list \<Rightarrow> (string \<rightharpoonup> string) \<Rightarrow> error + message list" where
  "formatMessages [] vs = Inr []"
| "formatMessages ((r, t) # ts) vs =
     (case format_template t vs of
        Inl e \<Rightarrow> Inl e
      | Inr c \<Rightarrow>
          (case formatMessages ts vs of
             Inl e \<Rightarrow> Inl e
           | Inr ms \<Rightarrow> Inr (\<lparr>role = r, content = c\<rparr> # ms)))"

section \<open>The orchestration\<close>

text \<open>
  What the script does to the outside is kept in an explicit state: the invocations of the
  structured-output runnable, each with the client, the schema and the name it was bound
  to and the rendered prompt; the number of requests the client has sent to the backend;
  and the values written with \<^verbatim>\<open>console.log\<close>, in order.
\<close>

record invocation =
  client :: chat_model
  schema :: zod
  name :: string
  prompt :: "message list"

record world =
  invocations :: "invocation list"
  requests :: nat
  stdout :: "json list"

text \<open>
  The client libraries and the hosted model are parameters of the script. A constructor
  may throw. For one invocation the client ends with an exception or with the model's
  reply, of which the runnable reads the arguments of the call of the bound function, if
  the reply holds one; and the client decides how many requests it sends on the way: none
  when it fails before sending, more than one when it tries a failed request again.
\<close>

record platform =
  construct :: "chat_model \<Rightarrow> error option"
  answer :: "invocation \<Rightarrow> (error + json option) \<times> nat"

text \<open>A runnable maps its input to a result or an exception, and may act on the world.\<close>

type_synonym ('a, 'b) runnable = "'a \<Rightarrow> world \<Rightarrow> (error + 'b) \<times> world"

definition promptTemplate_invoke :: "((string \<times> string) list, message list) runnable" where
  "promptTemplate_invoke input w = (formatMessages promptTemplate (map_of input), w)"

text \<open>
  Modelled from the spec: the output parser that the langchain library puts behind the
  model when the schema is a zod schema (library code, not among the repository's
  sources). The spec reads the handle as "invoke with prompt and schema, return validated
  structured result or error" and calls the error of a "backend response [that] does not
  conform to the declared schema" a validation error, "not retried" and "surfaced to
  caller": arguments that the schema rejects raise it, and arguments it accepts are
  returned as the validator's copy. A reply without a call of the bound function is
  handed on as \<^verbatim>\<open>undefined\<close>, unchecked.
\<close>

fun outputParser :: "zod \<Rightarrow> json option \<Rightarrow> error + json" where
  "outputParser s None = Inr JUndefined"
| "outputParser s (Some v) = (if accepts s v then Inr (data s v) else Inl OutputParserException)"

text \<open>
  \<^verbatim>\<open>model.withStructuredOutput(schema, { name })\<close>: a runnable that, when invoked with a
  prompt, lets the client obtain the model's reply and passes it through the output
  parser.
\<close>

definition withStructuredOutput ::
    "platform \<Rightarrow> chat_model \<Rightarrow> zod \<Rightarrow> string \<Rightarrow> (message list, json) runnable" where
  "withStructuredOutput p m s n msgs w =
     (let inv = \<lparr>client = m, schema = s, name = n, prompt = msgs\<rparr>;
          w' = w\<lparr>invocations := invocations w @ [inv],
                 requests := requests w + snd (answer p inv)\<rparr>
      in (case fst (answer p inv) of
            Inl e \<Rightarrow> (Inl e, w')
          | Inr reply \<Rightarrow> (outputParser s reply, w')))"

text \<open>\<^verbatim>\<open>a.pipe(b)\<close>: run \<open>a\<close>, and \<open>b\<close> on its result; an exception of \<open>a\<close> ends the chain.\<close>

definition pipe :: "('a, 'b) runnable \<Rightarrow> ('b, 'c) runnable \<Rightarrow> ('a, 'c) runnable" where
  "pipe f g x w = (case f x w of (Inl e, w') \<Rightarrow> (Inl e, w') | (Inr y, w') \<Rightarrow> g y w')"

definition console_log :: "json \<Rightarrow> world \<Rightarrow> world" where
  "console_log v w = w\<lparr>stdout := stdout w @ [v]\<rparr>"

text \<open>
  \<^verbatim>\<open>
  export const run = async () => {
    const llmWihStructuredOutput = model.withStructuredOutput(classificationSchema, {
        name: "extractor",
    });
    const chain = await promptTemplate.pipe(llmWihStructuredOutput);
    const result = await chain.invoke({ language: "Spanish", text: "Yo estas enfadado consigo" });
    console.log({ result });
  };
  \<close>
  The module-level \<^verbatim>\<open>model\<close> that \<^verbatim>\<open>run\<close> closes over is its argument \<open>m\<close> here. An
  \<^verbatim>\<open>await\<close> that rejects ends \<^verbatim>\<open>run\<close> with that exception.
\<close>

definition llmWihStructuredOutput :: "platform \<Rightarrow> chat_model \<Rightarrow> (message list, json) runnable" where
  "llmWihStructuredOutput p m = withStructuredOutput p m classificationSchema ''extractor''"

definition chain :: "platform \<Rightarrow> chat_model \<Rightarrow> ((string \<times> string) list, json) runnable" where
  "chain p m = pipe promptTemplate_invoke (llmWihStructuredOutput p m)"

definition run :: "platform \<Rightarrow> chat_model \<Rightarrow> world \<Rightarrow> (error + unit) \<times> world" where
  "run p m w =
     (case chain p m [(''language'', ''Spanish''), (''text'', ''Yo estas enfadado consigo'')] w of
        (Inl e, w') \<Rightarrow> (Inl e, w')
      | (Inr result, w') \<Rightarrow> (Inr (), console_log (JObj [(''result'', result)]) w'))"

text \<open>
  The whole script: the module body builds the client and calls \<^verbatim>\<open>run()\<close> without
  awaiting or catching it, so an exception of the constructor or a rejection of
  \<^verbatim>\<open>run\<close> reaches the runtime uncaught and ends the process.
\<close>

datatype outcome = Completed | Uncaught error

definition initial_world :: world where
  "initial_world = \<lparr>invocations = [], requests = 0, stdout = []\<rparr>"

definition program :: "platform \<Rightarrow> env \<Rightarrow> outcome \<times> world" where
  "program p env =
     (case construct p (model env) of
        Some e \<Rightarrow> (Uncaught e, initial_world)
      | None \<Rightarrow>
          (case run p (model env) initial_world of
             (Inl e, w) \<Rightarrow> (Uncaught e, w)
           | (Inr u, w) \<Rightarrow> (Completed, w)))"

section \<open>Invocations and test doubles used in the statements\<close>

text \<open>
  The invocation the chain makes for a language and a text (lemma \<open>chain_sends\<close> below
  shows that it is this one): the client, the schema and the name are those bound in
  \<^verbatim>\<open>run\<close>, the prompt is the rendered template.
\<close>

definition request_for :: "chat_model \<Rightarrow> string \<Rightarrow> string \<Rightarrow> invocation" where
  "request_for m l t =
     \<lparr>client = m, schema = classificationSchema, name = ''extractor'',
      prompt =
        [\<lparr>role = ''system'',
          content = ''You are an expert in '' @ l @ '', you have to detect grammar problems sentences''\<rparr>,
         \<lparr>role = ''user'', content = t\<rparr>]\<rparr>"

text \<open>
  Stub backends in place of the hosted model. The first answers the one request of every
  invocation with a call of the bound function with the given arguments; the second
  answers with a reply that holds no such call; the third fails every invocation with the
  given exception after the given number of requests; the last has a constructor that
  throws.
\<close>

definition stub :: "json \<Rightarrow> platform" where
  "stub v = \<lparr>construct = (\<lambda>m. None), answer = (\<lambda>inv. (Inr (Some v), 1))\<rparr>"

definition stub_without_call :: platform where
  "stub_without_call = \<lparr>construct = (\<lambda>m. None), answer = (\<lambda>inv. (Inr None, 1))\<rparr>"

definition failing :: "error \<Rightarrow> nat \<Rightarrow> platform" where
  "failing e k = \<lparr>construct = (\<lambda>m. None), answer = (\<lambda>inv. (Inl e, k))\<rparr>"

definition unconstructible :: "error \<Rightarrow> platform" where
  "unconstructible e = \<lparr>construct = (\<lambda>m. Some e), answer = (\<lambda>inv. (Inl e, 0))\<rparr>"

text \<open>
  The response of the spec's end-to-end scenario; the same response with
  \<^verbatim>\<open>aggressiveness = 15\<close>, the spec's example of a value that violates the schema; and
  the same response with its fields in another order and a field the schema does not
  declare.
\<close>

definition example_result :: json where
  "example_result = JObj
     [(''sentiment'', JStr ''angry''),
      (''aggressiveness'', JNum 2),
      (''correctness'', JNum 7),
      (''errors'', JArr [JStr ''use estar not ser for temporary states'']),
      (''solution'', JStr ''Yo estoy enfadado''),
      (''language'', JStr ''Spanish'')]"

definition malformed_result :: json where
  "malformed_result = JObj
     [(''sentiment'', JStr ''angry''),
      (''aggressiveness'', JNum 15),
      (''correctness'', JNum 7),
      (''errors'', JArr [JStr ''use estar not ser for temporary states'']),
      (''solution'', JStr ''Yo estoy enfadado''),
      (''language'', JStr ''Spanish'')]"

definition shuffled_result :: json where
  "shuffled_result = JObj
     [(''language'', JStr ''Spanish''),
      (''confidence'', JNum 1),
      (''solution'', JStr ''Yo estoy enfadado''),
      (''errors'', JArr [JStr ''use estar not ser for temporary states'']),
      (''correctness'', JNum 7),
      (''aggressiveness'', JNum 2),
      (''sentiment'', JStr ''angry'')]"

section \<open>Properties of the provider selection\<close>

lemma model_unset: "model Map.empty = ChatVertexAI \<lparr>model_id = ''gemini-1.5-pro-001'', temperature = 0\<rparr>"
  by (simp add: model_def)

lemma model_empty_string:
  "model [''LLM_PROVIDER'' \<mapsto> ''''] = ChatVertexAI \<lparr>model_id = ''gemini-1.5-pro-001'', temperature = 0\<rparr>"
  by (simp add: model_def)

lemma model_lower_case:
  "model [''LLM_PROVIDER'' \<mapsto> ''openai''] = ChatVertexAI \<lparr>model_id = ''gemini-1.5-pro-001'', temperature = 0\<rparr>"
  by (simp add: model_def)

text \<open>
  C1. For every value of \<^verbatim>\<open>LLM_PROVIDER\<close> (unset or any string), the selector chooses the
  OpenAI client exactly when the value is the string \<^verbatim>\<open>OPENAI\<close>, and the Vertex AI client
  for every other value.
\<close>

theorem model_selects_openai_iff:
  "(\<exists>f. model env = ChatOpenAI f) = (env ''LLM_PROVIDER'' = Some ''OPENAI'') \<and>
   (\<exists>f. model env = ChatVertexAI f) = (env ''LLM_PROVIDER'' \<noteq> Some ''OPENAI'')"
  by (simp add: model_def)

text \<open>
  C9. Whichever client is chosen, it is built with a fixed model identifier
  (\<^verbatim>\<open>gpt-4\<close> for OpenAI, \<^verbatim>\<open>gemini-1.5-pro-001\<close> for Vertex AI) and temperature 0.
\<close>

theorem model_fixed_fields:
  "(model env = ChatOpenAI \<lparr>model_id = ''gpt-4'', temperature = 0\<rparr> \<or>
    model env = ChatVertexAI \<lparr>model_id = ''gemini-1.5-pro-001'', temperature = 0\<rparr>) \<and>
   temperature (fields_of (model env)) = 0"
  by (simp add: model_def)

section \<open>Properties of the prompt template\<close>

lemma parse_systemTemplate:
  "parse_template None systemTemplate =
     Inr (map Literal ''You are an expert in '' @ [Variable ''language''] @
          map Literal '', you have to detect grammar problems sentences'')"
  by (simp add: systemTemplate_def)

lemma parse_userTemplate: "parse_template None ''{text}'' = Inr [Variable ''text'']"
  by simp

lemma format_systemTemplate:
  "vs ''language'' = Some l \<Longrightarrow>
   format_template systemTemplate vs =
     Inr (''You are an expert in '' @ l @ '', you have to detect grammar problems sentences'')"
  by (simp add: format_template_def parse_systemTemplate)

lemma format_userTemplate: "vs ''text'' = Some t \<Longrightarrow> format_template ''{text}'' vs = Inr t"
  by (simp add: format_template_def)

lemma formatMessages_promptTemplate:
  assumes "vs ''language'' = Some l" and "vs ''text'' = Some t"
  shows "formatMessages promptTemplate vs =
     Inr [\<lparr>role = ''system'',
           content = ''You are an expert in '' @ l @ '', you have to detect grammar problems sentences''\<rparr>,
          \<lparr>role = ''user'', content = t\<rparr>]"
  using assms by (simp add: promptTemplate_def format_systemTemplate format_userTemplate)

text \<open>
  C2. For every language and text, rendering the prompt template gives exactly two
  messages: a system message whose content is the template with the placeholder
  \<^verbatim>\<open>{language}\<close> replaced by the language, and a user message whose content is the text,
  unchanged (also when the text or the language contains braces).
\<close>

theorem promptTemplate_renders:
  "formatMessages promptTemplate (map_of [(''language'', l), (''text'', t)]) =
     Inr [\<lparr>role = ''system'',
           content = ''You are an expert in '' @ l @ '', you have to detect grammar problems sentences''\<rparr>,
          \<lparr>role = ''user'', content = t\<rparr>]"
  by (rule formatMessages_promptTemplate) simp_all

section \<open>Properties of the schema\<close>

lemma accepts_enum_iff: "accepts (ZEnum vs) x = (\<exists>s. x = JStr s \<and> s \<in> set vs)"
  by (cases x) auto

lemma accepts_string_iff: "accepts ZString x = (\<exists>s. x = JStr s)"
  by (cases x) auto

lemma accepts_scale_iff:
  "accepts (ZNumber [Int_check, Min_check 1, Max_check 10]) x =
     (\<exists>n::int. x = JNum (of_int n) \<and> 1 \<le> n \<and> n \<le> 10)"
proof (cases x)
  case (JNum r)
  have "(passes Int_check r \<and> passes (Min_check 1) r \<and> passes (Max_check 10) r) =
        (\<exists>n::int. r = of_int n \<and> 1 \<le> n \<and> n \<le> 10)"
  proof
    assume a: "passes Int_check r \<and> passes (Min_check 1) r \<and> passes (Max_check 10) r"
    then obtain n :: int where n: "r = of_int n" by auto
    from a n have "(1::rat) \<le> of_int n" "(of_int n :: rat) \<le> 10" by simp_all
    then have "1 \<le> n" "n \<le> 10" by linarith+
    with n show "\<exists>n::int. r = of_int n \<and> 1 \<le> n \<and> n \<le> 10" by blast
  next
    assume "\<exists>n::int. r = of_int n \<and> 1 \<le> n \<and> n \<le> 10"
    then obtain n :: int where "r = of_int n" "1 \<le> n" "n \<le> 10" by blast
    then show "passes Int_check r \<and> passes (Min_check 1) r \<and> passes (Max_check 10) r"
      by simp
  qed
  with JNum show ?thesis by simp
qed simp_all

lemma all_strings_iff: "list_all (\<lambda>x. \<exists>s. x = JStr s) xs = (\<exists>es. xs = map JStr es)"
proof (induction xs)
  case Nil
  show ?case by simp
next
  case (Cons x xs)
  show ?case
  proof
    assume "list_all (\<lambda>x. \<exists>s. x = JStr s) (x # xs)"
    with Cons obtain s es where "x = JStr s" "xs = map JStr es" by auto
    then have "x # xs = map JStr (s # es)" by simp
    then show "\<exists>es. x # xs = map JStr es" ..
  next
    assume "\<exists>es. x # xs = map JStr es"
    then obtain es where es: "x # xs = map JStr es" ..
    then obtain s es' where "es = s # es'" by (cases es) auto
    with es have "x = JStr s" "xs = map JStr es'" by simp_all
    with Cons show "list_all (\<lambda>x. \<exists>s. x = JStr s) (x # xs)" by auto
  qed
qed

lemma accepts_string_array_iff: "accepts (ZArray ZString) x = (\<exists>es. x = JArr (map JStr es))"
proof -
  have "accepts ZString = (\<lambda>x. \<exists>s. x = JStr s)"
    by (rule ext) (rule accepts_string_iff)
  then show ?thesis
    by (cases x) (simp_all add: all_strings_iff)
qed

lemma accepts_field_iff:
  "(case map_of kvs k of None \<Rightarrow> False | Some x \<Rightarrow> accepts (ZDescribe s d) x) =
     (\<exists>x. map_of kvs k = Some x \<and> accepts s x)"
  by (cases "map_of kvs k") simp_all

lemma six_fields:
  "((\<exists>x. m1 = Some x \<and> (\<exists>s. x = JStr s \<and> s \<in> S)) \<and>
    (\<exists>x. m2 = Some x \<and> (\<exists>n::int. x = JNum (of_int n) \<and> 1 \<le> n \<and> n \<le> 10)) \<and>
    (\<exists>x. m3 = Some x \<and> (\<exists>n::int. x = JNum (of_int n) \<and> 1 \<le> n \<and> n \<le> 10)) \<and>
    (\<exists>x. m4 = Some x \<and> (\<exists>es. x = JArr (map JStr es))) \<and>
    (\<exists>x. m5 = Some x \<and> (\<exists>s. x = JStr s)) \<and>
    (\<exists>x. m6 = Some x \<and> (\<exists>s. x = JStr s))) =
   (\<exists>s a c es sol lang.
      m1 = Some (JStr s) \<and> s \<in> S \<and>
      m2 = Some (JNum (of_int a)) \<and> (1::int) \<le> a \<and> a \<le> 10 \<and>
      m3 = Some (JNum (of_int c)) \<and> (1::int) \<le> c \<and> c \<le> 10 \<and>
      m4 = Some (JArr (map JStr es)) \<and>
      m5 = Some (JStr sol) \<and>
      m6 = Some (JStr lang))"
  by blast

lemma accepts_classificationSchema_iff:
  "accepts classificationSchema v =
     (\<exists>kvs s a c es sol lang.
        v = JObj kvs \<and>
        map_of kvs ''sentiment'' = Some (JStr s) \<and>
        s \<in> {''happy'', ''neutral'', ''sad'', ''angry'', ''frustrated''} \<and>
        map_of kvs ''aggressiveness'' = Some (JNum (of_int a)) \<and> (1::int) \<le> a \<and> a \<le> 10 \<and>
        map_of kvs ''correctness'' = Some (JNum (of_int c)) \<and> (1::int) \<le> c \<and> c \<le> 10 \<and>
        map_of kvs ''errors'' = Some (JArr (map JStr es)) \<and>
        map_of kvs ''solution'' = Some (JStr sol) \<and>
        map_of kvs ''language'' = Some (JStr lang))"
proof (cases v)
  case (JObj kvs)
  have "accepts classificationSchema (JObj kvs) =
     ((\<exists>x. map_of kvs ''sentiment'' = Some x \<and>
           (\<exists>s. x = JStr s \<and> s \<in> set [''happy'', ''neutral'', ''sad'', ''angry'', ''frustrated''])) \<and>
      (\<exists>x. map_of kvs ''aggressiveness'' = Some x \<and>
           (\<exists>n::int. x = JNum (of_int n) \<and> 1 \<le> n \<and> n \<le> 10)) \<and>
      (\<exists>x. map_of kvs ''correctness'' = Some x \<and>
           (\<exists>n::int. x = JNum (of_int n) \<and> 1 \<le> n \<and> n \<le> 10)) \<and>
      (\<exists>x. map_of kvs ''errors'' = Some x \<and> (\<exists>es. x = JArr (map JStr es))) \<and>
      (\<exists>x. map_of kvs ''solution'' = Some x \<and> (\<exists>s. x = JStr s)) \<and>
      (\<exists>x. map_of kvs ''language'' = Some x \<and> (\<exists>s. x = JStr s)))"
    unfolding classificationSchema_def
    by (simp only: accepts.simps(5) json.case list.pred_inject prod.case accepts_field_iff
        accepts_enum_iff accepts_scale_iff accepts_string_array_iff accepts_string_iff simp_thms)
  also have "\<dots> =
     (\<exists>s a c es sol lang.
        map_of kvs ''sentiment'' = Some (JStr s) \<and>
        s \<in> {''happy'', ''neutral'', ''sad'', ''angry'', ''frustrated''} \<and>
        map_of kvs ''aggressiveness'' = Some (JNum (of_int a)) \<and> (1::int) \<le> a \<and> a \<le> 10 \<and>
        map_of kvs ''correctness'' = Some (JNum (of_int c)) \<and> (1::int) \<le> c \<and> c \<le> 10 \<and>
        map_of kvs ''errors'' = Some (JArr (map JStr es)) \<and>
        map_of kvs ''solution'' = Some (JStr sol) \<and>
        map_of kvs ''language'' = Some (JStr lang))"
    by (simp only: six_fields set_simps)
  finally show ?thesis using JObj by simp
qed (simp_all add: classificationSchema_def)

lemma example_result_accepted: "accepts classificationSchema example_result"
  by (simp add: classificationSchema_def example_result_def)

lemma malformed_result_rejected: "\<not> accepts classificationSchema malformed_result"
  by (simp add: classificationSchema_def malformed_result_def)

text \<open>
  C3. Every value the declared schema accepts is an object in which all six fields are
  present and satisfy their constraints together: \<^verbatim>\<open>sentiment\<close> is one of happy,
  neutral, sad, angry, frustrated; \<^verbatim>\<open>aggressiveness\<close> and \<^verbatim>\<open>correctness\<close> are integers
  from 1 to 10; \<^verbatim>\<open>errors\<close> is a list of strings, possibly empty; \<^verbatim>\<open>solution\<close> and
  \<^verbatim>\<open>language\<close> are strings.
\<close>

theorem classificationSchema_constraints:
  assumes "accepts classificationSchema v"
  shows "\<exists>kvs s a c es sol lang.
        v = JObj kvs \<and>
        map_of kvs ''sentiment'' = Some (JStr s) \<and>
        s \<in> {''happy'', ''neutral'', ''sad'', ''angry'', ''frustrated''} \<and>
        map_of kvs ''aggressiveness'' = Some (JNum (of_int a)) \<and> (1::int) \<le> a \<and> a \<le> 10 \<and>
        map_of kvs ''correctness'' = Some (JNum (of_int c)) \<and> (1::int) \<le> c \<and> c \<le> 10 \<and>
        map_of kvs ''errors'' = Some (JArr (map JStr es)) \<and>
        map_of kvs ''solution'' = Some (JStr sol) \<and>
        map_of kvs ''language'' = Some (JStr lang)"
  using assms by (simp only: accepts_classificationSchema_iff)

theorem classificationSchema_constraints_witness:
  "accepts classificationSchema example_result \<and>
   (\<exists>kvs s a c es sol lang.
        example_result = JObj kvs \<and>
        map_of kvs ''sentiment'' = Some (JStr s) \<and>
        s \<in> {''happy'', ''neutral'', ''sad'', ''angry'', ''frustrated''} \<and>
        map_of kvs ''aggressiveness'' = Some (JNum (of_int a)) \<and> (1::int) \<le> a \<and> a \<le> 10 \<and>
        map_of kvs ''correctness'' = Some (JNum (of_int c)) \<and> (1::int) \<le> c \<and> c \<le> 10 \<and>
        map_of kvs ''errors'' = Some (JArr (map JStr es)) \<and>
        map_of kvs ''solution'' = Some (JStr sol) \<and>
        map_of kvs ''language'' = Some (JStr lang))"
proof -
  have h: "accepts classificationSchema example_result"
    by (simp add: classificationSchema_def example_result_def)
  from h classificationSchema_constraints [OF h] show ?thesis by (rule conjI)
qed

section \<open>Properties of the validator's copy\<close>

lemma data_strings: "map (data ZString) (map JStr es) = map JStr es"
  by (induction es) simp_all

lemma data_classificationSchema:
  assumes "map_of kvs ''sentiment'' = Some (JStr s)"
    and "map_of kvs ''aggressiveness'' = Some (JNum a)"
    and "map_of kvs ''correctness'' = Some (JNum c)"
    and "map_of kvs ''errors'' = Some (JArr (map JStr es))"
    and "map_of kvs ''solution'' = Some (JStr sol)"
    and "map_of kvs ''language'' = Some (JStr lang)"
  shows "data classificationSchema (JObj kvs) =
     JObj [(''sentiment'', JStr s), (''aggressiveness'', JNum a), (''correctness'', JNum c),
           (''errors'', JArr (map JStr es)), (''solution'', JStr sol), (''language'', JStr lang)]"
  unfolding classificationSchema_def
  by (simp only: data.simps data_properties.simps assms option.case data_strings)

lemma data_example_result: "data classificationSchema example_result = example_result"
  by (simp add: classificationSchema_def example_result_def)

lemma shuffled_result_accepted: "accepts classificationSchema shuffled_result"
  by (simp add: classificationSchema_def shuffled_result_def)

lemma data_shuffled_result: "data classificationSchema shuffled_result = example_result"
  by (simp add: classificationSchema_def shuffled_result_def example_result_def)

section \<open>Properties of the orchestration\<close>

lemma chain_sends:
  "chain p m [(''language'', l), (''text'', t)] w =
     (case fst (answer p (request_for m l t)) of
        Inl e \<Rightarrow> Inl e
      | Inr reply \<Rightarrow> outputParser classificationSchema reply,
      w\<lparr>invocations := invocations w @ [request_for m l t],
        requests := requests w + snd (answer p (request_for m l t))\<rparr>)"
proof -
  have rendered: "formatMessages promptTemplate (map_of [(''language'', l), (''text'', t)]) =
     Inr [\<lparr>role = ''system'',
           content = ''You are an expert in '' @ l @ '', you have to detect grammar problems sentences''\<rparr>,
          \<lparr>role = ''user'', content = t\<rparr>]"
    by (rule formatMessages_promptTemplate) simp_all
  show ?thesis
    unfolding chain_def pipe_def promptTemplate_invoke_def llmWihStructuredOutput_def
      withStructuredOutput_def request_for_def
    by (simp only: rendered prod.case sum.case Let_def split: sum.split) simp
qed

lemma run_failure:
  assumes "answer p (request_for m ''Spanish'' ''Yo estas enfadado consigo'') = (Inl e, k)"
  shows "run p m w =
     (Inl e, w\<lparr>invocations := invocations w @ [request_for m ''Spanish'' ''Yo estas enfadado consigo''],
               requests := requests w + k\<rparr>)"
  by (simp add: run_def chain_sends assms)

lemma run_rejected:
  assumes "answer p (request_for m ''Spanish'' ''Yo estas enfadado consigo'') = (Inr (Some v), k)"
    and "\<not> accepts classificationSchema v"
  shows "run p m w =
     (Inl OutputParserException,
      w\<lparr>invocations := invocations w @ [request_for m ''Spanish'' ''Yo estas enfadado consigo''],
        requests := requests w + k\<rparr>)"
  by (simp add: run_def chain_sends assms)

lemma run_accepted:
  assumes "answer p (request_for m ''Spanish'' ''Yo estas enfadado consigo'') = (Inr (Some v), k)"
    and "accepts classificationSchema v"
  shows "run p m w =
     (Inr (),
      w\<lparr>invocations := invocations w @ [request_for m ''Spanish'' ''Yo estas enfadado consigo''],
        requests := requests w + k,
        stdout := stdout w @ [JObj [(''result'', data classificationSchema v)]]\<rparr>)"
  by (simp add: run_def chain_sends assms console_log_def)

lemma run_without_call:
  assumes "answer p (request_for m ''Spanish'' ''Yo estas enfadado consigo'') = (Inr None, k)"
  shows "run p m w =
     (Inr (),
      w\<lparr>invocations := invocations w @ [request_for m ''Spanish'' ''Yo estas enfadado consigo''],
        requests := requests w + k,
        stdout := stdout w @ [JObj [(''result'', JUndefined)]]\<rparr>)"
  by (simp add: run_def chain_sends assms console_log_def)

lemma run_cases:
  obtains (failure) e k where
      "answer p (request_for m ''Spanish'' ''Yo estas enfadado consigo'') = (Inl e, k)"
  | (without_call) k where
      "answer p (request_for m ''Spanish'' ''Yo estas enfadado consigo'') = (Inr None, k)"
  | (rejected) v k where
      "answer p (request_for m ''Spanish'' ''Yo estas enfadado consigo'') = (Inr (Some v), k)"
      "\<not> accepts classificationSchema v"
  | (accepted) v k where
      "answer p (request_for m ''Spanish'' ''Yo estas enfadado consigo'') = (Inr (Some v), k)"
      "accepts classificationSchema v"
proof (cases "answer p (request_for m ''Spanish'' ''Yo estas enfadado consigo'')")
  case (Pair reply k)
  then show ?thesis
  proof (cases reply)
    case (Inl e)
    with Pair show ?thesis by (auto intro: failure)
  next
    case (Inr r)
    with Pair show ?thesis
      by (cases r) (auto intro: without_call rejected accepted)
  qed
qed

lemma run_invocations:
  "invocations (snd (run p m w)) =
     invocations w @ [request_for m ''Spanish'' ''Yo estas enfadado consigo'']"
  by (cases rule: run_cases [of p m])
    (simp_all add: run_failure run_without_call run_rejected run_accepted)



lemma program_constructed:
  assumes "construct p (model env) = None"
  shows "program p env =
     (case run p (model env) initial_world of
        (Inl e, w) \<Rightarrow> (Uncaught e, w)
      | (Inr u, w) \<Rightarrow> (Completed, w))"
  by (simp add: program_def assms)

text \<open>
  What the library does with the two replies that are neither an error nor a conforming
  value in the schema's own order: a reply without a call of the bound function is printed
  as \<^verbatim>\<open>{ result: undefined }\<close>, and a conforming value in another order and with an
  undeclared field is printed in the schema's order without that field.
\<close>

lemma run_prints_undefined:
  "run stub_without_call (model Map.empty) initial_world =
     (Inr (),
      \<lparr>invocations = [request_for (model Map.empty) ''Spanish'' ''Yo estas enfadado consigo''],
       requests = 1, stdout = [JObj [(''result'', JUndefined)]]\<rparr>)"
proof -
  have "answer stub_without_call
      (request_for (model Map.empty) ''Spanish'' ''Yo estas enfadado consigo'') = (Inr None, 1)"
    by (simp add: stub_without_call_def)
  then show ?thesis
    by (simp add: run_without_call initial_world_def)
qed

lemma run_prints_copy:
  "run (stub shuffled_result) (model Map.empty) initial_world =
     (Inr (),
      \<lparr>invocations = [request_for (model Map.empty) ''Spanish'' ''Yo estas enfadado consigo''],
       requests = 1, stdout = [JObj [(''result'', example_result)]]\<rparr>)"
proof -
  have "answer (stub shuffled_result)
      (request_for (model Map.empty) ''Spanish'' ''Yo estas enfadado consigo'') =
      (Inr (Some shuffled_result), 1)"
    by (simp add: stub_def)
  then show ?thesis
    by (simp add: run_accepted shuffled_result_accepted data_shuffled_result initial_world_def)
qed




text \<open>
  C8. The script handles no error. When the backend fails a request, \<^verbatim>\<open>run\<close> ends with
  that same error, after its one invocation of the chain and with nothing written: it does
  not catch the error, recover from it or try again. The same holds for the validation
  error of a response the schema rejects. The error then ends the process uncaught, as
  does an error thrown while the client is built.
\<close>

theorem run_error_propagates:
  "(answer p (request_for m ''Spanish'' ''Yo estas enfadado consigo'') = (Inl e, k) \<longrightarrow>
      run p m w =
        (Inl e,
         w\<lparr>invocations := invocations w @ [request_for m ''Spanish'' ''Yo estas enfadado consigo''],
           requests := requests w + k\<rparr>)) \<and>
   (construct p (model env) = None \<and>
    answer p (request_for (model env) ''Spanish'' ''Yo estas enfadado consigo'') = (Inl e, k) \<longrightarrow>
      program p env =
        (Uncaught e,
         \<lparr>invocations = [request_for (model env) ''Spanish'' ''Yo estas enfadado consigo''],
          requests = k, stdout = []\<rparr>)) \<and>
   (construct p (model env) = Some e \<longrightarrow>
      program p env = (Uncaught e, \<lparr>invocations = [], requests = 0, stdout = []\<rparr>)) \<and>
   (answer p (request_for m ''Spanish'' ''Yo estas enfadado consigo'') = (Inr (Some v), k) \<and>
    \<not> accepts classificationSchema v \<longrightarrow>
      run p m w =
        (Inl OutputParserException,
         w\<lparr>invocations := invocations w @ [request_for m ''Spanish'' ''Yo estas enfadado consigo''],
           requests := requests w + k\<rparr>)) \<and>
   (construct p (model env) = None \<and>
    answer p (request_for (model env) ''Spanish'' ''Yo estas enfadado consigo'') =
      (Inr (Some v), k) \<and>
    \<not> accepts classificationSchema v \<longrightarrow>
      program p env =
        (Uncaught OutputParserException,
         \<lparr>invocations = [request_for (model env) ''Spanish'' ''Yo estas enfadado consigo''],
          requests = k, stdout = []\<rparr>))"
proof (intro conjI impI)
  assume "answer p (request_for m ''Spanish'' ''Yo estas enfadado consigo'') = (Inl e, k)"
  then show "run p m w =
      (Inl e,
       w\<lparr>invocations := invocations w @ [request_for m ''Spanish'' ''Yo estas enfadado consigo''],
         requests := requests w + k\<rparr>)"
    by (rule run_failure)
next
  assume a: "construct p (model env) = None \<and>
    answer p (request_for (model env) ''Spanish'' ''Yo estas enfadado consigo'') = (Inl e, k)"
  then have "run p (model env) initial_world =
      (Inl e,
       initial_world\<lparr>invocations := invocations initial_world @
           [request_for (model env) ''Spanish'' ''Yo estas enfadado consigo''],
         requests := requests initial_world + k\<rparr>)"
    by (simp add: run_failure)
  with a show "program p env =
      (Uncaught e,
       \<lparr>invocations = [request_for (model env) ''Spanish'' ''Yo estas enfadado consigo''],
        requests = k, stdout = []\<rparr>)"
    by (simp add: program_constructed initial_world_def)
next
  assume "construct p (model env) = Some e"
  then show "program p env = (Uncaught e, \<lparr>invocations = [], requests = 0, stdout = []\<rparr>)"
    by (simp add: program_def initial_world_def)
next
  assume "answer p (request_for m ''Spanish'' ''Yo estas enfadado consigo'') = (Inr (Some v), k) \<and>
    \<not> accepts classificationSchema v"
  then show "run p m w =
      (Inl OutputParserException,
       w\<lparr>invocations := invocations w @ [request_for m ''Spanish'' ''Yo estas enfadado consigo''],
         requests := requests w + k\<rparr>)"
    by (simp add: run_rejected)
next
  assume a: "construct p (model env) = None \<and>
    answer p (request_for (model env) ''Spanish'' ''Yo estas enfadado consigo'') =
      (Inr (Some v), k) \<and>
    \<not> accepts classificationSchema v"
  then have "run p (model env) initial_world =
      (Inl OutputParserException,
       initial_world\<lparr>invocations := invocations initial_world @
           [request_for (model env) ''Spanish'' ''Yo estas enfadado consigo''],
         requests := requests initial_world + k\<rparr>)"
    by (simp add: run_rejected)
  with a show "program p env =
      (Uncaught OutputParserException,
       \<lparr>invocations = [request_for (model env) ''Spanish'' ''Yo estas enfadado consigo''],
        requests = k, stdout = []\<rparr>)"
    by (simp add: program_constructed initial_world_def)
qed

theorem run_error_propagates_witness:
  "answer (failing (Thrown ''network'') 1)
     (request_for (model Map.empty) ''Spanish'' ''Yo estas enfadado consigo'') =
     (Inl (Thrown ''network''), 1) \<and>
   construct (failing (Thrown ''network'') 1) (model Map.empty) = None \<and>
   run (failing (Thrown ''network'') 1) (model Map.empty) initial_world =
     (Inl (Thrown ''network''),
      \<lparr>invocations = [request_for (model Map.empty) ''Spanish'' ''Yo estas enfadado consigo''],
       requests = 1, stdout = []\<rparr>) \<and>
   program (failing (Thrown ''network'') 1) Map.empty =
     (Uncaught (Thrown ''network''),
      \<lparr>invocations = [request_for (model Map.empty) ''Spanish'' ''Yo estas enfadado consigo''],
       requests = 1, stdout = []\<rparr>) \<and>
   construct (unconstructible (Thrown ''credentials'')) (model [''LLM_PROVIDER'' \<mapsto> ''OPENAI'']) =
     Some (Thrown ''credentials'') \<and>
   program (unconstructible (Thrown ''credentials'')) [''LLM_PROVIDER'' \<mapsto> ''OPENAI''] =
     (Uncaught (Thrown ''credentials''), \<lparr>invocations = [], requests = 0, stdout = []\<rparr>) \<and>
   answer (stub malformed_result)
     (request_for (model Map.empty) ''Spanish'' ''Yo estas enfadado consigo'') =
     (Inr (Some malformed_result), 1) \<and>
   construct (stub malformed_result) (model Map.empty) = None \<and>
   \<not> accepts classificationSchema malformed_result \<and>
   run (stub malformed_result) (model Map.empty) initial_world =
     (Inl OutputParserException,
      \<lparr>invocations = [request_for (model Map.empty) ''Spanish'' ''Yo estas enfadado consigo''],
       requests = 1, stdout = []\<rparr>) \<and>
   program (stub malformed_result) Map.empty =
     (Uncaught OutputParserException,
      \<lparr>invocations = [request_for (model Map.empty) ''Spanish'' ''Yo estas enfadado consigo''],
       requests = 1, stdout = []\<rparr>)"
proof -
  have bad: "\<not> accepts classificationSchema malformed_result"
    by (simp add: classificationSchema_def malformed_result_def)
  show ?thesis
    using bad
      run_error_propagates [of "failing (Thrown ''network'') 1" "model Map.empty"
        "Thrown ''network''" 1 initial_world Map.empty malformed_result]
      run_error_propagates [of "unconstructible (Thrown ''credentials'')" "model Map.empty"
        "Thrown ''credentials''" 0 initial_world "[''LLM_PROVIDER'' \<mapsto> ''OPENAI'']"
        malformed_result]
      run_error_propagates [of "stub malformed_result" "model Map.empty"
        "Thrown ''network''" 1 initial_world Map.empty malformed_result]
    by (simp add: failing_def unconstructible_def stub_def initial_world_def)
qed



text \<open>
  C6 (amended). For every valid classification result the backend returns, \<^verbatim>\<open>run\<close>
  writes one object to standard output whose single property \<^verbatim>\<open>result\<close> holds the
  validator's copy of the response: the six declared fields in the schema's order, each
  with the value the response gives it, unchanged. The response is wrapped, not written
  as it is; its own field order is not kept and fields the schema does not declare are
  left out.
\<close>

theorem run_emits_result_wrapped:
  assumes "accepts classificationSchema v"
    and "answer p (request_for m ''Spanish'' ''Yo estas enfadado consigo'') = (Inr (Some v), k)"
  shows "\<exists>kvs s a c es sol lang.
      v = JObj kvs \<and>
      map_of kvs ''sentiment'' = Some s \<and>
      map_of kvs ''aggressiveness'' = Some a \<and>
      map_of kvs ''correctness'' = Some c \<and>
      map_of kvs ''errors'' = Some es \<and>
      map_of kvs ''solution'' = Some sol \<and>
      map_of kvs ''language'' = Some lang \<and>
      stdout (snd (run p m w)) =
        stdout w @
          [JObj [(''result'',
             JObj [(''sentiment'', s), (''aggressiveness'', a), (''correctness'', c),
                   (''errors'', es), (''solution'', sol), (''language'', lang)])]]"
proof -
  from assms(1) obtain kvs s a c es sol lang where v: "v = JObj kvs"
    and fields: "map_of kvs ''sentiment'' = Some (JStr s)"
      "map_of kvs ''aggressiveness'' = Some (JNum (of_int a))"
      "map_of kvs ''correctness'' = Some (JNum (of_int c))"
      "map_of kvs ''errors'' = Some (JArr (map JStr es))"
      "map_of kvs ''solution'' = Some (JStr sol)"
      "map_of kvs ''language'' = Some (JStr lang)"
    unfolding accepts_classificationSchema_iff by blast
  have "data classificationSchema v =
      JObj [(''sentiment'', JStr s), (''aggressiveness'', JNum (of_int a)),
            (''correctness'', JNum (of_int c)), (''errors'', JArr (map JStr es)),
            (''solution'', JStr sol), (''language'', JStr lang)]"
    unfolding v using fields by (rule data_classificationSchema)
  with assms have "stdout (snd (run p m w)) =
      stdout w @
        [JObj [(''result'',
           JObj [(''sentiment'', JStr s), (''aggressiveness'', JNum (of_int a)),
                 (''correctness'', JNum (of_int c)), (''errors'', JArr (map JStr es)),
                 (''solution'', JStr sol), (''language'', JStr lang)])]]"
    by (simp add: run_accepted)
  with v fields show ?thesis by blast
qed

theorem run_emits_result_wrapped_witness:
  "accepts classificationSchema shuffled_result \<and>
   answer (stub shuffled_result)
     (request_for (model Map.empty) ''Spanish'' ''Yo estas enfadado consigo'') =
     (Inr (Some shuffled_result), 1) \<and>
   (\<exists>kvs s a c es sol lang.
      shuffled_result = JObj kvs \<and>
      map_of kvs ''sentiment'' = Some s \<and>
      map_of kvs ''aggressiveness'' = Some a \<and>
      map_of kvs ''correctness'' = Some c \<and>
      map_of kvs ''errors'' = Some es \<and>
      map_of kvs ''solution'' = Some sol \<and>
      map_of kvs ''language'' = Some lang \<and>
      stdout (snd (run (stub shuffled_result) (model Map.empty) initial_world)) =
        stdout initial_world @
          [JObj [(''result'',
             JObj [(''sentiment'', s), (''aggressiveness'', a), (''correctness'', c),
                   (''errors'', es), (''solution'', sol), (''language'', lang)])]])"
proof -
  have ok: "accepts classificationSchema shuffled_result"
    by (simp add: classificationSchema_def shuffled_result_def)
  have reply: "answer (stub shuffled_result)
      (request_for (model Map.empty) ''Spanish'' ''Yo estas enfadado consigo'') =
      (Inr (Some shuffled_result), 1)"
    by (simp add: stub_def)
  from ok reply run_emits_result_wrapped [OF ok reply, of initial_world]
  show ?thesis by (intro conjI)
qed

text \<open>
  The claim as stated fails: for the valid response of the spec's example, the object
  written to standard output is not the backend's response but an object around it.
\<close>

theorem run_emits_wrapper_counterexample:
  "accepts classificationSchema example_result \<and>
   stdout (snd (run (stub example_result) (model Map.empty) initial_world)) =
     [JObj [(''result'', example_result)]] \<and>
   stdout (snd (run (stub example_result) (model Map.empty) initial_world)) \<noteq> [example_result]"
proof -
  have "JObj [(''result'', example_result)] \<noteq> example_result"
    by (simp add: example_result_def)
  then show ?thesis
    by (simp add: example_result_accepted run_accepted [where k = 1] data_example_result
        stub_def initial_world_def)
qed

text \<open>
  C7 (amended). \<^verbatim>\<open>run\<close> binds one fixed sample input, whose language is
  \<^verbatim>\<open>Spanish\<close>, to the template, and given a stub backend that returns the spec's example
  classification result it writes the object whose single property \<^verbatim>\<open>result\<close> is exactly
  that result.
\<close>

theorem run_sample_scenario:
  "\<exists>t.
     (\<forall>p m w.
        invocations (snd (run p m w)) =
          invocations w @
            [\<lparr>client = m, schema = classificationSchema, name = ''extractor'',
              prompt =
                [\<lparr>role = ''system'',
                  content = ''You are an expert in Spanish, you have to detect grammar problems sentences''\<rparr>,
                 \<lparr>role = ''user'', content = t\<rparr>]\<rparr>]) \<and>
     (\<forall>m w.
        fst (run (stub example_result) m w) = Inr () \<and>
        stdout (snd (run (stub example_result) m w)) =
          stdout w @ [JObj [(''result'', example_result)]])"
proof (intro exI [where x = "''Yo estas enfadado consigo''"] conjI allI)
  fix p m w
  show "invocations (snd (run p m w)) =
      invocations w @
        [\<lparr>client = m, schema = classificationSchema, name = ''extractor'',
          prompt =
            [\<lparr>role = ''system'',
              content = ''You are an expert in Spanish, you have to detect grammar problems sentences''\<rparr>,
             \<lparr>role = ''user'', content = ''Yo estas enfadado consigo''\<rparr>]\<rparr>]"
    by (simp add: run_invocations request_for_def)
next
  fix m w
  have reply: "answer (stub example_result)
      (request_for m ''Spanish'' ''Yo estas enfadado consigo'') = (Inr (Some example_result), 1)"
    by (simp add: stub_def)
  show "fst (run (stub example_result) m w) = Inr ()"
    by (simp add: run_accepted [OF reply example_result_accepted])
  show "stdout (snd (run (stub example_result) m w)) =
      stdout w @ [JObj [(''result'', example_result)]]"
    by (simp add: run_accepted [OF reply example_result_accepted] data_example_result)
qed

text \<open>
  The claim as stated fails twice: the text that \<^verbatim>\<open>run\<close> sends is not
  \<^verbatim>\<open>Yo soy enfadado\<close>, and what it prints is not the example result itself.
\<close>

theorem run_sample_counterexample:
  "map (\<lambda>i. map content (prompt i))
     (invocations (snd (run (stub example_result) (model Map.empty) initial_world))) =
     [[''You are an expert in Spanish, you have to detect grammar problems sentences'',
       ''Yo estas enfadado consigo'']] \<and>
   ''Yo estas enfadado consigo'' \<noteq> ''Yo soy enfadado'' \<and>
   stdout (snd (run (stub example_result) (model Map.empty) initial_world)) \<noteq> [example_result]"
proof -
  have "JObj [(''result'', example_result)] \<noteq> example_result"
    by (simp add: example_result_def)
  then show ?thesis
    by (simp add: run_accepted [where k = 1] example_result_accepted data_example_result
        stub_def initial_world_def request_for_def)
qed

text \<open>
  C10. The schema is a constant: whatever language and text the chain is invoked with, and
  in \<^verbatim>\<open>run\<close> itself, the schema sent to the backend is \<open>classificationSchema\<close>, and the
  guidance of its \<^verbatim>\<open>solution\<close> field ends with the placeholder \<^verbatim>\<open>{language}\<close> as
  written, not replaced: only the prompt template is rendered.
\<close>

theorem schema_is_static:
  "map schema (invocations (snd (chain p m [(''language'', l), (''text'', t)] w))) =
     map schema (invocations w) @ [classificationSchema] \<and>
   map schema (invocations (snd (run p m w))) =
     map schema (invocations w) @ [classificationSchema] \<and>
   map_option description (map_of (shape classificationSchema) ''solution'') =
     Some (Some (''The solution to the errors in the text. Write the solution in '' @ ''{language}''))"
proof (intro conjI)
  show "map schema (invocations (snd (chain p m [(''language'', l), (''text'', t)] w))) =
      map schema (invocations w) @ [classificationSchema]"
    by (simp add: chain_sends request_for_def)
  show "map schema (invocations (snd (run p m w))) =
      map schema (invocations w) @ [classificationSchema]"
    by (simp add: run_invocations request_for_def)
  show "map_option description (map_of (shape classificationSchema) ''solution'') =
      Some (Some (''The solution to the errors in the text. Write the solution in '' @ ''{language}''))"
    by (simp add: classificationSchema_def)
qed

end
